theory Spec2Isabelle
  imports Main
begin

section \<open>The rule engine of the snake game (snake.py)\<close>

text \<open>
  The development embeds the logic-bearing part of \<^verbatim>\<open>snake.py\<close>: the enumerations
  \<^verbatim>\<open>MoveResult\<close> and \<^verbatim>\<open>Direction\<close>, the value class \<^verbatim>\<open>Coordinate\<close> and the class
  \<^verbatim>\<open>SnakeGame\<close>. Python integers are \<open>int\<close>; an exception is the left injection of
  a sum type; the mutable object is a record that every method takes and returns.
\<close>

subsection \<open>Exceptions and the values compared by \<^verbatim>\<open>__eq__\<close>\<close>

datatype error = IndexError | KeyError | ZeroDivisionError | NotImplementedError

subsection \<open>MoveResult\<close>

datatype MoveResult = OK | OVERFLOW | COLISION

text \<open>
  \<^verbatim>\<open>return self in (MoveResult.COLISION, MoveResult.COLISION)\<close>: membership in the
  tuple exactly as it is written in the source, with \<^verbatim>\<open>COLISION\<close> twice.
\<close>

definition is_lost :: "MoveResult \<Rightarrow> bool" where
  "is_lost self = (self \<in> set [COLISION, COLISION])"

subsection \<open>Direction\<close>

datatype Direction = LEFT | RIGHT | UP | DOWN

text \<open>The module-level dictionary \<^verbatim>\<open>OPPOSITE_DIRECTIONS_MAP\<close>.\<close>

definition OPPOSITE_DIRECTIONS_MAP :: "Direction \<rightharpoonup> Direction" where
  "OPPOSITE_DIRECTIONS_MAP = map_of [(LEFT, RIGHT), (RIGHT, LEFT), (UP, DOWN), (DOWN, UP)]"

text \<open>\<^verbatim>\<open>OPPOSITE_DIRECTIONS_MAP[self]\<close>: a subscript on a dictionary raises KeyError
  on a missing key.\<close>

definition get_opposite :: "Direction \<Rightarrow> error + Direction" where
  "get_opposite self =
     (case OPPOSITE_DIRECTIONS_MAP self of None \<Rightarrow> Inl KeyError | Some d \<Rightarrow> Inr d)"

definition is_opposed :: "Direction \<Rightarrow> Direction \<Rightarrow> error + bool" where
  "is_opposed self direction =
     (case get_opposite self of Inl e \<Rightarrow> Inl e | Inr d \<Rightarrow> Inr (d = direction))"

subsection \<open>Coordinate\<close>

datatype Coordinate = Coordinate (x: int) (y: int)

text \<open>
  The objects that \<^verbatim>\<open>Coordinate.__eq__\<close> can be handed: \<^verbatim>\<open>None\<close>, another
  \<^verbatim>\<open>Coordinate\<close>, or a value of some other class (a tuple, an integer, a string).
\<close>

datatype pyobject =
    PyNone
  | PyCoordinate Coordinate
  | PyTuple "int list"
  | PyInt int
  | PyStr string

definition totuple :: "Coordinate \<Rightarrow> int \<times> int" where
  "totuple self = (x self, y self)"

fun Coordinate_eq :: "Coordinate \<Rightarrow> pyobject \<Rightarrow> error + bool" where
  "Coordinate_eq self PyNone = Inr False"
| "Coordinate_eq self (PyCoordinate v) = Inr (totuple self = totuple v)"
| "Coordinate_eq self _ = Inl NotImplementedError"

definition left :: "Coordinate \<Rightarrow> Coordinate" where
  "left self = Coordinate (x self - 1) (y self)"

definition right :: "Coordinate \<Rightarrow> Coordinate" where
  "right self = Coordinate (x self + 1) (y self)"

definition up :: "Coordinate \<Rightarrow> Coordinate" where
  "up self = Coordinate (x self) (y self - 1)"

definition down :: "Coordinate \<Rightarrow> Coordinate" where
  "down self = Coordinate (x self) (y self + 1)"

text \<open>
  \<^verbatim>\<open>Coordinate(self.x % width, self.y % height)\<close>. Python's \<^verbatim>\<open>%\<close> on integers takes
  the sign of the divisor, as \<open>mod\<close> on \<open>int\<close> does, and raises ZeroDivisionError
  when the divisor is zero, where \<open>a mod 0 = a\<close> in HOL.
\<close>

definition overflows :: "Coordinate \<Rightarrow> int \<Rightarrow> int \<Rightarrow> error + Coordinate" where
  "overflows self width height =
     (if width = 0 then Inl ZeroDivisionError
      else if height = 0 then Inl ZeroDivisionError
      else Inr (Coordinate (x self mod width) (y self mod height)))"

definition is_outside :: "Coordinate \<Rightarrow> int \<Rightarrow> int \<Rightarrow> bool" where
  "is_outside self width height =
     (if x self < 0 \<or> x self \<ge> width then True
      else if y self < 0 \<or> y self \<ge> height then True
      else False)"

subsection \<open>SnakeGame\<close>

text \<open>
  The attributes of the object, without the leading underscore. The Python set
  \<^verbatim>\<open>_all_coordinates\<close> is kept as a duplicate-free list of its elements; the order of a
  Python set is unspecified and no property proved below depends on the order chosen here.
\<close>

record SnakeGame =
  width :: int
  height :: int
  start_len :: int
  overflows_allowed :: bool
  direction :: Direction
  snake :: "Coordinate list"
  all_coordinates :: "Coordinate list"
  apple :: "Coordinate option"

definition get_free_coordinates :: "SnakeGame \<Rightarrow> Coordinate list" where
  "get_free_coordinates self =
     filter (\<lambda>c. c \<notin> set (snake self)) (all_coordinates self)"

text \<open>
  \<^verbatim>\<open>random.choice(free_coords)\<close> returns the element at a random index below the
  length. The random source is the argument \<open>rnd\<close>, reduced modulo the length, so
  that every element of the list is the result for some \<open>rnd\<close> and for no \<open>rnd\<close>
  the result lies outside the list.
\<close>

definition get_random_free_coordinate :: "SnakeGame \<Rightarrow> nat \<Rightarrow> Coordinate option" where
  "get_random_free_coordinate self rnd =
     (let free_coords = get_free_coordinates self
      in if free_coords = [] then None
         else Some (free_coords ! (rnd mod length free_coords)))"

definition new_apple :: "SnakeGame \<Rightarrow> nat \<Rightarrow> SnakeGame" where
  "new_apple self rnd = self\<lparr>apple := get_random_free_coordinate self rnd\<rparr>"

text \<open>
  The constructor. \<^verbatim>\<open>range(n)\<close> is \<open>[0..n - 1]\<close>, empty for \<open>n \<le> 0\<close>. No
  statement of \<^verbatim>\<open>__init__\<close> raises, and none inspects its arguments: every branch of
  the model is \<open>Inr\<close>.
\<close>

definition SnakeGame_init :: "int \<Rightarrow> int \<Rightarrow> int \<Rightarrow> bool \<Rightarrow> nat \<Rightarrow> error + SnakeGame" where
  "SnakeGame_init w h start_length overflow rnd =
     Inr (new_apple
       \<lparr> width = w, height = h, start_len = start_length,
         overflows_allowed = overflow,
         direction = RIGHT,
         snake = map (\<lambda>i. Coordinate i 0) [0..start_length - 1],
         all_coordinates = concat (map (\<lambda>i. map (\<lambda>j. Coordinate i j) [0..h - 1]) [0..w - 1]),
         apple = None \<rparr> rnd)"

text \<open>\<^verbatim>\<open>self._snake[-1]\<close> and \<^verbatim>\<open>self._snake[0]\<close> raise IndexError on an empty list.\<close>

definition head :: "SnakeGame \<Rightarrow> error + Coordinate" where
  "head self = (case snake self of [] \<Rightarrow> Inl IndexError | _ # _ \<Rightarrow> Inr (last (snake self)))"

definition tail :: "SnakeGame \<Rightarrow> error + Coordinate" where
  "tail self = (case snake self of [] \<Rightarrow> Inl IndexError | c # _ \<Rightarrow> Inr c)"

definition get_snake :: "SnakeGame \<Rightarrow> Coordinate list" where
  "get_snake self = snake self"

definition get_apple :: "SnakeGame \<Rightarrow> Coordinate option" where
  "get_apple self = apple self"

definition score :: "SnakeGame \<Rightarrow> int" where
  "score self = int (length (snake self)) - start_len self"

definition next_coord :: "SnakeGame \<Rightarrow> error + Coordinate" where
  "next_coord self =
     (case head self of
        Inl e \<Rightarrow> Inl e
      | Inr c \<Rightarrow>
          Inr (case direction self of
                 LEFT \<Rightarrow> left c
               | RIGHT \<Rightarrow> right c
               | UP \<Rightarrow> up c
               | DOWN \<Rightarrow> down c))"

definition set_direction :: "SnakeGame \<Rightarrow> Direction \<Rightarrow> error + SnakeGame" where
  "set_direction self d =
     (case is_opposed (direction self) d of
        Inl e \<Rightarrow> Inl e
      | Inr opposed \<Rightarrow> if opposed then Inr self else Inr (self\<lparr>direction := d\<rparr>))"

text \<open>
  The candidate after the bounds check of \<^verbatim>\<open>move\<close>: \<open>None\<close> stands for the early
  \<^verbatim>\<open>return MoveResult.OVERFLOW\<close>, \<open>Some c\<close> for the coordinate the method goes on
  with (wrapped when it was outside).
\<close>

definition bounded_coord :: "SnakeGame \<Rightarrow> Coordinate \<Rightarrow> error + Coordinate option" where
  "bounded_coord self coordinate =
     (if is_outside coordinate (width self) (height self) then
        if \<not> overflows_allowed self then Inr None
        else (case overflows coordinate (width self) (height self) of
                Inl e \<Rightarrow> Inl e
              | Inr c \<Rightarrow> Inr (Some c))
      else Inr (Some coordinate))"

text \<open>
  \<^verbatim>\<open>move\<close>. The comparisons \<^verbatim>\<open>coordinate != self.tail\<close>, \<^verbatim>\<open>coordinate in self._snake\<close>
  and \<^verbatim>\<open>coordinate == self._apple\<close> are between coordinates, or a coordinate and
  \<^verbatim>\<open>None\<close>, where \<^verbatim>\<open>__eq__\<close> does not raise and is equality of the components.
  \<^verbatim>\<open>pop(0)\<close> follows an \<^verbatim>\<open>append\<close>, so the list it pops from is never empty.
\<close>

definition move :: "SnakeGame \<Rightarrow> nat \<Rightarrow> error + (MoveResult \<times> SnakeGame)" where
  "move self rnd =
     (case next_coord self of
        Inl e \<Rightarrow> Inl e
      | Inr candidate \<Rightarrow>
          (case bounded_coord self candidate of
             Inl e \<Rightarrow> Inl e
           | Inr None \<Rightarrow> Inr (OVERFLOW, self)
           | Inr (Some coordinate) \<Rightarrow>
               (case tail self of
                  Inl e \<Rightarrow> Inl e
                | Inr t \<Rightarrow>
                    if coordinate \<noteq> t \<and> coordinate \<in> set (snake self) then Inr (COLISION, self)
                    else
                      let appended = self\<lparr>snake := snake self @ [coordinate]\<rparr>
                      in if Some coordinate = apple self
                         then Inr (OK, new_apple appended rnd)
                         else Inr (OK, appended\<lparr>snake := tl (snake appended)\<rparr>))))"

subsection \<open>Sequences of calls\<close>

text \<open>
  A caller drives the object through \<^verbatim>\<open>set_direction\<close> and \<^verbatim>\<open>move\<close>. Both methods
  raise, when they raise, before their first assignment, so an exception leaves the
  object as it was.
\<close>

datatype call = SetDirection Direction | Move nat

fun do_call :: "SnakeGame \<Rightarrow> call \<Rightarrow> SnakeGame" where
  "do_call g (SetDirection d) = (case set_direction g d of Inl e \<Rightarrow> g | Inr g' \<Rightarrow> g')"
| "do_call g (Move rnd) = (case move g rnd of Inl e \<Rightarrow> g | Inr (r, g') \<Rightarrow> g')"

definition run :: "SnakeGame \<Rightarrow> call list \<Rightarrow> SnakeGame" where
  "run g cs = foldl do_call g cs"

subsection \<open>Example boards\<close>

text \<open>A board of two columns and two rows, used where a property is run on a concrete game.\<close>

abbreviation cells_2x2 :: "Coordinate list" where
  "cells_2x2 \<equiv> [Coordinate 0 0, Coordinate 0 1, Coordinate 1 0, Coordinate 1 1]"

abbreviation game_2x2 ::
  "int \<Rightarrow> bool \<Rightarrow> Direction \<Rightarrow> Coordinate list \<Rightarrow> Coordinate option \<Rightarrow> SnakeGame" where
  "game_2x2 start_length overflow d body a \<equiv>
     \<lparr> width = 2, height = 2, start_len = start_length, overflows_allowed = overflow,
       direction = d, snake = body, all_coordinates = cells_2x2, apple = a \<rparr>"

section \<open>Direction and MoveResult\<close>

lemma get_opposite_cases:
  "get_opposite LEFT = Inr RIGHT" "get_opposite RIGHT = Inr LEFT"
  "get_opposite UP = Inr DOWN" "get_opposite DOWN = Inr UP"
  by (simp_all add: get_opposite_def OPPOSITE_DIRECTIONS_MAP_def)

text \<open>
  Claim C9. The opposite-direction function is a total involution: for each of the four
  directions the lookup succeeds (no KeyError), it pairs LEFT with RIGHT and UP with
  DOWN, and the opposite of the opposite is the direction itself.
\<close>

theorem get_opposite_involution:
  "(\<exists>d'. get_opposite d = Inr d' \<and> get_opposite d' = Inr d)
   \<and> get_opposite LEFT = Inr RIGHT \<and> get_opposite RIGHT = Inr LEFT
   \<and> get_opposite UP = Inr DOWN \<and> get_opposite DOWN = Inr UP"
  by (cases d) (simp_all add: get_opposite_cases)

text \<open>
  Claim C5. The claim asks that \<open>is_lost\<close> hold exactly of OVERFLOW and COLISION. The
  tuple in the source names COLISION twice and OVERFLOW never, so the property is
  false of OVERFLOW: of the three results only COLISION counts as lost.
\<close>

theorem is_lost_only_COLISION:
  "is_lost OVERFLOW = False \<and> is_lost COLISION = True \<and> is_lost OK = False"
  by (simp add: is_lost_def)

section \<open>Coordinate\<close>

text \<open>
  Claim C8. For extents of at least one, wrapping any coordinate, negative or past the
  extent, returns (raises nothing) the coordinate of the two remainders, and each
  remainder lies from zero up to, and not including, its extent: the result is not
  outside the board.
\<close>

theorem overflows_in_bounds:
  assumes "1 \<le> w" and "1 \<le> h"
  shows "\<exists>c. overflows self w h = Inr c
            \<and> x c = x self mod w \<and> y c = y self mod h
            \<and> 0 \<le> x c \<and> x c < w \<and> 0 \<le> y c \<and> y c < h
            \<and> \<not> is_outside c w h"
proof -
  from assms have nz: "w \<noteq> 0" "h \<noteq> 0" by simp_all
  from assms have bx: "0 \<le> x self mod w" "x self mod w < w" by simp_all
  from assms have bnd_y: "0 \<le> y self mod h" "y self mod h < h" by simp_all
  from nz bx bnd_y show ?thesis
    by (simp add: overflows_def is_outside_def)
qed

theorem overflows_in_bounds_witness:
  "(1::int) \<le> 5 \<and> (1::int) \<le> 4
   \<and> overflows (Coordinate (- 1) 9) 5 4 = Inr (Coordinate 4 1)
   \<and> \<not> is_outside (Coordinate 4 1) 5 4"
proof -
  have w: "(1::int) \<le> 5" and h: "(1::int) \<le> 4" by simp_all
  from overflows_in_bounds [OF w h, of "Coordinate (- 1) 9"]
  show ?thesis by (auto simp: overflows_def)
qed

text \<open>
  Claim C10. Equality of a coordinate is partial: against \<^verbatim>\<open>None\<close> it is false,
  against a coordinate it is true exactly when both components agree, and against a
  value that is neither (a tuple, an integer, a string) it raises NotImplementedError
  and returns no boolean.
\<close>

theorem Coordinate_eq_partial:
  "Coordinate_eq c PyNone = Inr False
   \<and> Coordinate_eq c (PyCoordinate d) = Inr (x c = x d \<and> y c = y d)
   \<and> (v \<noteq> PyNone \<longrightarrow> (\<forall>d. v \<noteq> PyCoordinate d) \<longrightarrow> Coordinate_eq c v = Inl NotImplementedError)"
  by (cases v) (simp_all add: totuple_def)

theorem Coordinate_eq_partial_witness:
  "PyTuple [1, 2] \<noteq> PyNone \<and> (\<forall>d. PyTuple [1, 2] \<noteq> PyCoordinate d)
   \<and> Coordinate_eq (Coordinate 1 2) (PyTuple [1, 2]) = Inl NotImplementedError
   \<and> Coordinate_eq (Coordinate 1 2) PyNone = Inr False
   \<and> Coordinate_eq (Coordinate 1 2) (PyCoordinate (Coordinate 1 2)) = Inr True
   \<and> Coordinate_eq (Coordinate 1 2) (PyCoordinate (Coordinate 1 3)) = Inr False"
  using Coordinate_eq_partial [of "Coordinate 1 2" "Coordinate 1 2" "PyTuple [1, 2]"]
        Coordinate_eq_partial [of "Coordinate 1 2" "Coordinate 1 3" "PyTuple [1, 2]"]
  by simp

section \<open>SnakeGame\<close>

subsection \<open>The model of the comparisons and of the random choice\<close>

text \<open>
  On two coordinates \<^verbatim>\<open>__eq__\<close> is the equality of HOL, which is what \<open>move\<close>
  uses for \<^verbatim>\<open>==\<close>, \<^verbatim>\<open>!=\<close> and \<^verbatim>\<open>in\<close>.
\<close>

lemma Coordinate_eq_is_equality: "Coordinate_eq c (PyCoordinate d) = Inr (c = d)"
  by (cases c, cases d) (simp add: totuple_def)

text \<open>
  The random argument loses no behaviour of \<^verbatim>\<open>random.choice\<close>: every free cell is
  the new apple for some value of it, and a chosen apple is always a free cell.
\<close>

lemma get_random_free_coordinate_any:
  assumes "a \<in> set (get_free_coordinates g)"
  shows "\<exists>rnd. get_random_free_coordinate g rnd = Some a"
proof -
  from assms obtain i where i: "i < length (get_free_coordinates g)"
    and a: "get_free_coordinates g ! i = a"
    by (auto simp: in_set_conv_nth)
  from i have "get_free_coordinates g \<noteq> []" by auto
  with i a have "get_random_free_coordinate g i = Some a"
    by (simp add: get_random_free_coordinate_def Let_def)
  then show ?thesis ..
qed

lemma get_random_free_coordinate_Some:
  assumes "get_random_free_coordinate g rnd = Some a"
  shows "a \<in> set (all_coordinates g) \<and> a \<notin> set (snake g)"
proof -
  let ?free = "get_free_coordinates g"
  from assms have ne: "?free \<noteq> []" and a: "a = ?free ! (rnd mod length ?free)"
    by (auto simp: get_random_free_coordinate_def Let_def split: if_splits)
  from ne have "rnd mod length ?free < length ?free" by simp
  then have "?free ! (rnd mod length ?free) \<in> set ?free" by (rule nth_mem)
  with a show ?thesis by (simp add: get_free_coordinates_def)
qed

subsection \<open>set_direction\<close>

lemma is_opposed_total: "\<exists>b. is_opposed c d = Inr b \<and> (b \<longleftrightarrow> get_opposite c = Inr d)"
  by (cases c) (auto simp: is_opposed_def get_opposite_cases)

text \<open>
  Claim C7. For every current direction and every requested direction \<open>d\<close>,
  \<open>set_direction\<close> raises nothing. When \<open>d\<close> is the opposite of the current
  direction (RIGHT against LEFT, LEFT against RIGHT, DOWN against UP, UP against DOWN)
  it leaves the game as it is, so the direction stays the current one; for every other
  \<open>d\<close> it changes the direction, and nothing else, to \<open>d\<close>. The pairs of
  opposites are written out here, not read from the dictionary of the source.
\<close>

theorem set_direction_rule:
  "((direction self, d) \<in> {(LEFT, RIGHT), (RIGHT, LEFT), (UP, DOWN), (DOWN, UP)}
      \<longrightarrow> set_direction self d = Inr self)
   \<and> ((direction self, d) \<notin> {(LEFT, RIGHT), (RIGHT, LEFT), (UP, DOWN), (DOWN, UP)}
      \<longrightarrow> set_direction self d = Inr (self\<lparr>direction := d\<rparr>))"
  by (cases "direction self"; cases d)
     (simp_all add: set_direction_def is_opposed_def get_opposite_cases)

theorem set_direction_rule_witness:
  "(direction (game_2x2 2 True RIGHT [Coordinate 0 0, Coordinate 1 0] None), LEFT)
       \<in> {(LEFT, RIGHT), (RIGHT, LEFT), (UP, DOWN), (DOWN, UP)}
   \<and> set_direction (game_2x2 2 True RIGHT [Coordinate 0 0, Coordinate 1 0] None) LEFT
       = Inr (game_2x2 2 True RIGHT [Coordinate 0 0, Coordinate 1 0] None)
   \<and> (direction (game_2x2 2 True DOWN [Coordinate 0 0, Coordinate 1 0] None), UP)
       \<in> {(LEFT, RIGHT), (RIGHT, LEFT), (UP, DOWN), (DOWN, UP)}
   \<and> set_direction (game_2x2 2 True DOWN [Coordinate 0 0, Coordinate 1 0] None) UP
       = Inr (game_2x2 2 True DOWN [Coordinate 0 0, Coordinate 1 0] None)
   \<and> (direction (game_2x2 2 True RIGHT [Coordinate 0 0, Coordinate 1 0] None), UP)
       \<notin> {(LEFT, RIGHT), (RIGHT, LEFT), (UP, DOWN), (DOWN, UP)}
   \<and> set_direction (game_2x2 2 True RIGHT [Coordinate 0 0, Coordinate 1 0] None) UP
       = Inr (game_2x2 2 True UP [Coordinate 0 0, Coordinate 1 0] None)
   \<and> (direction (game_2x2 2 True DOWN [Coordinate 0 0, Coordinate 1 0] None), DOWN)
       \<notin> {(LEFT, RIGHT), (RIGHT, LEFT), (UP, DOWN), (DOWN, UP)}
   \<and> set_direction (game_2x2 2 True DOWN [Coordinate 0 0, Coordinate 1 0] None) DOWN
       = Inr (game_2x2 2 True DOWN [Coordinate 0 0, Coordinate 1 0] None)"
  using set_direction_rule [of "game_2x2 2 True RIGHT [Coordinate 0 0, Coordinate 1 0] None" LEFT]
    set_direction_rule [of "game_2x2 2 True DOWN [Coordinate 0 0, Coordinate 1 0] None" UP]
    set_direction_rule [of "game_2x2 2 True RIGHT [Coordinate 0 0, Coordinate 1 0] None" UP]
    set_direction_rule [of "game_2x2 2 True DOWN [Coordinate 0 0, Coordinate 1 0] None" DOWN]
  by simp

subsection \<open>The branches of move\<close>

lemma head_Inr: "head g = Inr c \<longleftrightarrow> snake g \<noteq> [] \<and> c = last (snake g)"
  by (auto simp: head_def split: list.splits)

lemma tail_Inr: "tail g = Inr c \<longleftrightarrow> snake g \<noteq> [] \<and> c = hd (snake g)"
  by (auto simp: tail_def split: list.splits)

lemma next_coord_Inr: "next_coord g = Inr c \<Longrightarrow> snake g \<noteq> []"
  by (auto simp: next_coord_def head_def split: list.splits sum.splits)

lemma move_no_coord: "next_coord self = Inl e \<Longrightarrow> move self rnd = Inl e"
  by (simp add: move_def)

lemma move_bounds_error:
  "next_coord self = Inr cand \<Longrightarrow> bounded_coord self cand = Inl e \<Longrightarrow> move self rnd = Inl e"
  by (simp add: move_def)

lemma move_overflow:
  "next_coord self = Inr cand \<Longrightarrow> bounded_coord self cand = Inr None
   \<Longrightarrow> move self rnd = Inr (OVERFLOW, self)"
  by (simp add: move_def)


lemma move_checked:
  assumes "next_coord self = Inr cand" and "bounded_coord self cand = Inr (Some c)"
  shows "move self rnd =
     (if c \<noteq> hd (snake self) \<and> c \<in> set (snake self) then Inr (COLISION, self)
      else if Some c = apple self
        then Inr (OK, new_apple (self\<lparr>snake := snake self @ [c]\<rparr>) rnd)
        else Inr (OK, self\<lparr>snake := tl (snake self) @ [c]\<rparr>))"
proof -
  from assms(1) have ne: "snake self \<noteq> []" by (rule next_coord_Inr)
  then have t: "tail self = Inr (hd (snake self))" by (simp add: tail_Inr)
  from assms t ne show ?thesis by (simp add: move_def Let_def)
qed


text \<open>A call that returns took one of four paths through the method.\<close>

lemma move_cases:
  assumes "move self rnd = Inr (r, g)"
  obtains
    (overflow) cand where "next_coord self = Inr cand" "bounded_coord self cand = Inr None"
      "r = OVERFLOW" "g = self"
  | (collision) cand c where "next_coord self = Inr cand" "bounded_coord self cand = Inr (Some c)"
      "c \<noteq> hd (snake self)" "c \<in> set (snake self)" "r = COLISION" "g = self"
  | (grow) cand c where "next_coord self = Inr cand" "bounded_coord self cand = Inr (Some c)"
      "c = hd (snake self) \<or> c \<notin> set (snake self)" "apple self = Some c" "r = OK"
      "g = new_apple (self\<lparr>snake := snake self @ [c]\<rparr>) rnd"
  | (shift) cand c where "next_coord self = Inr cand" "bounded_coord self cand = Inr (Some c)"
      "c = hd (snake self) \<or> c \<notin> set (snake self)" "apple self \<noteq> Some c" "r = OK"
      "g = self\<lparr>snake := tl (snake self) @ [c]\<rparr>"
proof (cases "next_coord self")
  case (Inl e)
  with assms show ?thesis by (simp add: move_no_coord)
next
  case cand: (Inr cand)
  show ?thesis
  proof (cases "bounded_coord self cand")
    case (Inl e)
    with assms cand show ?thesis by (simp add: move_bounds_error)
  next
    case (Inr oc)
    show ?thesis
    proof (cases oc)
      case None
      with Inr have b: "bounded_coord self cand = Inr None" by simp
      from assms have "r = OVERFLOW" "g = self"
        unfolding move_overflow [OF cand b] by simp_all
      with overflow [OF cand b] show ?thesis by blast
    next
      case (Some c)
      with Inr have b: "bounded_coord self cand = Inr (Some c)" by simp
      note m = move_checked [OF cand b, of rnd]
      show ?thesis
      proof (cases "c \<noteq> hd (snake self) \<and> c \<in> set (snake self)")
        case True
        with m assms have "r = COLISION" "g = self" by simp_all
        with True collision [OF cand b] show ?thesis by blast
      next
        case nocol: False
        show ?thesis
        proof (cases "apple self = Some c")
          case True
          with m nocol assms have "r = OK" "g = new_apple (self\<lparr>snake := snake self @ [c]\<rparr>) rnd"
            by simp_all
          with True nocol grow [OF cand b] show ?thesis by blast
        next
          case False
          then have "Some c \<noteq> apple self" by auto
          with m nocol assms have "r = OK" "g = self\<lparr>snake := tl (snake self) @ [c]\<rparr>"
            by simp_all
          with False nocol shift [OF cand b] show ?thesis by blast
        qed
      qed
    qed
  qed
qed

text \<open>Moves on the example board, one for each path.\<close>

lemma move_2x2_overflow:
  "move (game_2x2 2 False RIGHT [Coordinate 0 0, Coordinate 1 0] (Some (Coordinate 0 1))) 0
   = Inr (OVERFLOW, game_2x2 2 False RIGHT [Coordinate 0 0, Coordinate 1 0] (Some (Coordinate 0 1)))"
  by (simp add: move_def next_coord_def head_def bounded_coord_def is_outside_def right_def)


lemma move_2x2_collision:
  "move (game_2x2 2 False UP [Coordinate 0 0, Coordinate 1 0, Coordinate 1 1] (Some (Coordinate 0 1))) 0
   = Inr (COLISION, game_2x2 2 False UP [Coordinate 0 0, Coordinate 1 0, Coordinate 1 1] (Some (Coordinate 0 1)))"
  by (simp add: move_def next_coord_def head_def tail_def bounded_coord_def is_outside_def up_def)

lemma move_2x2_eat:
  "move (game_2x2 2 True DOWN [Coordinate 0 0, Coordinate 1 0] (Some (Coordinate 1 1))) 0
   = Inr (OK, game_2x2 2 True DOWN [Coordinate 0 0, Coordinate 1 0, Coordinate 1 1] (Some (Coordinate 0 1)))"
  by (simp add: move_def next_coord_def head_def tail_def bounded_coord_def is_outside_def down_def
      new_apple_def get_random_free_coordinate_def get_free_coordinates_def)

lemma move_2x2_shift:
  "move (game_2x2 2 True DOWN [Coordinate 0 0, Coordinate 1 0] (Some (Coordinate 0 1))) 0
   = Inr (OK, game_2x2 2 True DOWN [Coordinate 1 0, Coordinate 1 1] (Some (Coordinate 0 1)))"
  by (simp add: move_def next_coord_def head_def tail_def bounded_coord_def is_outside_def down_def)


subsection \<open>Losing moves change nothing\<close>

text \<open>
  Claim C2. \<open>move\<close> is atomic: whenever it returns OVERFLOW or COLISION, the game after
  the call is the game before it; body, apple, score and direction are what they were.
\<close>

theorem move_atomic:
  assumes "move self rnd = Inr (r, g)" and "r = OVERFLOW \<or> r = COLISION"
  shows "g = self \<and> snake g = snake self \<and> apple g = apple self
         \<and> score g = score self \<and> direction g = direction self"
  using assms by (cases rule: move_cases) auto

theorem move_atomic_witness:
  "move (game_2x2 2 False RIGHT [Coordinate 0 0, Coordinate 1 0] (Some (Coordinate 0 1))) 0
     = Inr (OVERFLOW, game_2x2 2 False RIGHT [Coordinate 0 0, Coordinate 1 0] (Some (Coordinate 0 1)))
   \<and> move (game_2x2 2 False UP [Coordinate 0 0, Coordinate 1 0, Coordinate 1 1] (Some (Coordinate 0 1))) 0
     = Inr (COLISION, game_2x2 2 False UP [Coordinate 0 0, Coordinate 1 0, Coordinate 1 1] (Some (Coordinate 0 1)))
   \<and> score (game_2x2 2 False UP [Coordinate 0 0, Coordinate 1 0, Coordinate 1 1] (Some (Coordinate 0 1))) = 1"
proof -
  have o: "OVERFLOW = OVERFLOW \<or> OVERFLOW = COLISION" and c: "COLISION = OVERFLOW \<or> COLISION = COLISION"
    by simp_all
  from move_atomic [OF move_2x2_overflow o] move_atomic [OF move_2x2_collision c]
    move_2x2_overflow move_2x2_collision
  show ?thesis by (simp add: score_def)
qed

subsection \<open>The collision check\<close>




subsection \<open>Growth\<close>

text \<open>
  Claim C6. Whenever \<open>move\<close> returns OK the game has a new head. If the new head is
  the apple of before the call, the body is the old body with the head appended (the
  tail stays), so its length and the score are each one more; otherwise the length of
  the body and the score are what they were.
\<close>

theorem move_growth:
  assumes "move self rnd = Inr (OK, g)"
  shows "\<exists>c. head g = Inr c
           \<and> (if apple self = Some c
              then snake g = snake self @ [c]
                   \<and> length (snake g) = length (snake self) + 1
                   \<and> score g = score self + 1
              else length (snake g) = length (snake self) \<and> score g = score self)"
  using assms
proof (cases rule: move_cases)
  case (grow cand c)
  then show ?thesis by (simp add: head_Inr new_apple_def score_def)
next
  case (shift cand c)
  from shift(1) have "snake self \<noteq> []" by (rule next_coord_Inr)
  with shift show ?thesis by (simp add: head_Inr score_def)
qed simp_all

theorem move_growth_witness:
  "move (game_2x2 2 True DOWN [Coordinate 0 0, Coordinate 1 0] (Some (Coordinate 1 1))) 0
     = Inr (OK, game_2x2 2 True DOWN [Coordinate 0 0, Coordinate 1 0, Coordinate 1 1] (Some (Coordinate 0 1)))
   \<and> head (game_2x2 2 True DOWN [Coordinate 0 0, Coordinate 1 0, Coordinate 1 1] (Some (Coordinate 0 1)))
     = Inr (Coordinate 1 1)
   \<and> score (game_2x2 2 True DOWN [Coordinate 0 0, Coordinate 1 0] (Some (Coordinate 1 1))) = 0
   \<and> score (game_2x2 2 True DOWN [Coordinate 0 0, Coordinate 1 0, Coordinate 1 1] (Some (Coordinate 0 1))) = 1
   \<and> move (game_2x2 2 True DOWN [Coordinate 0 0, Coordinate 1 0] (Some (Coordinate 0 1))) 0
     = Inr (OK, game_2x2 2 True DOWN [Coordinate 1 0, Coordinate 1 1] (Some (Coordinate 0 1)))
   \<and> score (game_2x2 2 True DOWN [Coordinate 1 0, Coordinate 1 1] (Some (Coordinate 0 1))) = 0"
  using move_growth [OF move_2x2_eat] move_growth [OF move_2x2_shift] move_2x2_eat move_2x2_shift
  by (simp add: head_def score_def)

subsection \<open>The constructor\<close>

lemma board_cell_inside:
  "a \<in> set (concat (map (\<lambda>i. map (\<lambda>j. Coordinate i j) [0..h - 1]) [0..w - 1]))
   \<Longrightarrow> \<not> is_outside a w h"
  by (auto simp: is_outside_def)

text \<open>
  Claim C4, as amended. The constructor checks nothing: for every width, height and start
  length, those with a width or height below one or a start length above the width
  included, it returns a game. The body of that game is the cells \<open>(0, 0)\<close> to
  \<open>(start_length - 1, 0)\<close> (none for a start length below one), the direction is
  RIGHT, and the apple, when there is one, is a cell of the board outside the body.
\<close>

theorem SnakeGame_init_total:
  "\<exists>g. SnakeGame_init w h start_length overflow rnd = Inr g
      \<and> width g = w \<and> height g = h \<and> start_len g = start_length
      \<and> overflows_allowed g = overflow \<and> direction g = RIGHT
      \<and> snake g = map (\<lambda>i. Coordinate i 0) [0..start_length - 1]
      \<and> int (length (snake g)) = max 0 start_length
      \<and> (\<forall>a. apple g = Some a \<longrightarrow> a \<notin> set (snake g) \<and> \<not> is_outside a w h)"
proof -
  let ?g0 = "\<lparr> width = w, height = h, start_len = start_length,
         overflows_allowed = overflow, direction = RIGHT,
         snake = map (\<lambda>i. Coordinate i 0) [0..start_length - 1],
         all_coordinates = concat (map (\<lambda>i. map (\<lambda>j. Coordinate i j) [0..h - 1]) [0..w - 1]),
         apple = None \<rparr>"
  have i: "SnakeGame_init w h start_length overflow rnd = Inr (new_apple ?g0 rnd)"
    by (simp add: SnakeGame_init_def)
  have f: "width (new_apple ?g0 rnd) = w" "height (new_apple ?g0 rnd) = h"
    "start_len (new_apple ?g0 rnd) = start_length" "overflows_allowed (new_apple ?g0 rnd) = overflow"
    "direction (new_apple ?g0 rnd) = RIGHT"
    "snake (new_apple ?g0 rnd) = map (\<lambda>i. Coordinate i 0) [0..start_length - 1]"
    by (simp_all add: new_apple_def)
  have l: "int (length (snake (new_apple ?g0 rnd))) = max 0 start_length"
    by (simp add: new_apple_def)
  have a: "a \<notin> set (snake (new_apple ?g0 rnd)) \<and> \<not> is_outside a w h"
    if "apple (new_apple ?g0 rnd) = Some a" for a
  proof -
    from that have "get_random_free_coordinate ?g0 rnd = Some a" by (simp add: new_apple_def)
    from get_random_free_coordinate_Some [OF this] board_cell_inside [of a h w]
    show ?thesis by (simp add: new_apple_def)
  qed
  from i f l a show ?thesis by blast
qed

theorem SnakeGame_init_total_witness:
  "SnakeGame_init 2 2 5 False 0
     = Inr (game_2x2 5 False RIGHT
         [Coordinate 0 0, Coordinate 1 0, Coordinate 2 0, Coordinate 3 0, Coordinate 4 0]
         (Some (Coordinate 0 1)))
   \<and> Coordinate 0 1 \<notin> set [Coordinate 0 0, Coordinate 1 0, Coordinate 2 0, Coordinate 3 0, Coordinate 4 0]
   \<and> \<not> is_outside (Coordinate 0 1) 2 2"
proof -
  have e: "SnakeGame_init 2 2 5 False 0
     = Inr (game_2x2 5 False RIGHT
         [Coordinate 0 0, Coordinate 1 0, Coordinate 2 0, Coordinate 3 0, Coordinate 4 0]
         (Some (Coordinate 0 1)))"
    by code_simp
  from SnakeGame_init_total [of 2 2 5 False 0] obtain g
    where i: "SnakeGame_init 2 2 5 False 0 = Inr g"
      and a: "\<forall>a. apple g = Some a \<longrightarrow> a \<notin> set (snake g) \<and> \<not> is_outside a 2 2"
    by blast
  from i e have g: "g = game_2x2 5 False RIGHT
         [Coordinate 0 0, Coordinate 1 0, Coordinate 2 0, Coordinate 3 0, Coordinate 4 0]
         (Some (Coordinate 0 1))" by simp
  from a have "Coordinate 0 1 \<notin> set (snake g) \<and> \<not> is_outside (Coordinate 0 1) 2 2"
    unfolding g by simp
  with e show ?thesis unfolding g by simp
qed

text \<open>
  Construction does not fail on a misconfiguration: width 0, height 0 and a start
  length of 3 on a board of width 2 each give a game; the last has the body cell
  \<open>(2, 0)\<close> outside the board.
\<close>

theorem SnakeGame_init_counterexample:
  "SnakeGame_init 0 2 3 True 0
     = Inr \<lparr> width = 0, height = 2, start_len = 3, overflows_allowed = True, direction = RIGHT,
             snake = [Coordinate 0 0, Coordinate 1 0, Coordinate 2 0],
             all_coordinates = [], apple = None \<rparr>
   \<and> SnakeGame_init 2 0 2 True 0
     = Inr \<lparr> width = 2, height = 0, start_len = 2, overflows_allowed = True, direction = RIGHT,
             snake = [Coordinate 0 0, Coordinate 1 0],
             all_coordinates = [], apple = None \<rparr>
   \<and> SnakeGame_init 2 2 3 True 0
     = Inr (game_2x2 3 True RIGHT [Coordinate 0 0, Coordinate 1 0, Coordinate 2 0]
             (Some (Coordinate 0 1)))
   \<and> is_outside (Coordinate 2 0) 2 2"
  by code_simp

subsection \<open>The body has no duplicates and the apple is off the body\<close>

lemma init_invariant:
  assumes "SnakeGame_init w h start_length overflow rnd = Inr g"
  shows "distinct (snake g) \<and> (\<forall>c\<in>set (snake g). apple g \<noteq> Some c)"
proof -
  let ?body = "map (\<lambda>i. Coordinate i 0) [0..start_length - 1]"
  have d: "distinct ?body" by (simp add: distinct_map inj_on_def)
  from assms obtain g0 where g: "g = new_apple g0 rnd" and s: "snake g0 = ?body"
    by (auto simp: SnakeGame_init_def)
  from g s d have "distinct (snake g)" by (simp add: new_apple_def)
  moreover have "apple g \<noteq> Some c" if "c \<in> set (snake g)" for c
  proof
    assume "apple g = Some c"
    with g have "get_random_free_coordinate g0 rnd = Some c" by (simp add: new_apple_def)
    from get_random_free_coordinate_Some [OF this] that g show False by (simp add: new_apple_def)
  qed
  ultimately show ?thesis by blast
qed

lemma set_direction_snake_apple:
  "set_direction g d = Inr g' \<Longrightarrow> snake g' = snake g \<and> apple g' = apple g"
  by (auto simp: set_direction_def split: sum.splits if_splits)

lemma move_invariant:
  assumes m: "move g rnd = Inr (r, g')"
    and d: "distinct (snake g)" and a: "\<forall>c\<in>set (snake g). apple g \<noteq> Some c"
  shows "distinct (snake g') \<and> (\<forall>c\<in>set (snake g'). apple g' \<noteq> Some c)"
  using m
proof (cases rule: move_cases)
  case (overflow cand)
  with d a show ?thesis by simp
next
  case (collision cand c)
  with d a show ?thesis by simp
next
  case (grow cand c)
  from grow(4) a have fresh: "c \<notin> set (snake g)" by auto
  have s: "snake g' = snake g @ [c]" using grow(6) by (simp add: new_apple_def)
  from s d fresh have "distinct (snake g')" by simp
  moreover have "apple g' \<noteq> Some b" if "b \<in> set (snake g')" for b
  proof
    assume "apple g' = Some b"
    with grow(6) have "get_random_free_coordinate (g\<lparr>snake := snake g @ [c]\<rparr>) rnd = Some b"
      by (simp add: new_apple_def)
    from get_random_free_coordinate_Some [OF this] that s show False by simp
  qed
  ultimately show ?thesis by blast
next
  case (shift cand c)
  from shift(1) have ne: "snake g \<noteq> []" by (rule next_coord_Inr)
  then have hdtl: "snake g = hd (snake g) # tl (snake g)" by simp
  with d have dtl: "distinct (tl (snake g))" and hd_out: "hd (snake g) \<notin> set (tl (snake g))"
    by (metis distinct.simps(2))+
  from hdtl have sub: "set (tl (snake g)) \<subseteq> set (snake g)" by (metis set_subset_Cons)
  from shift(3) hd_out sub have fresh: "c \<notin> set (tl (snake g))" by auto
  have s: "snake g' = tl (snake g) @ [c]" and ap: "apple g' = apple g"
    using shift(6) by simp_all
  from s dtl fresh have "distinct (snake g')" by simp
  moreover from s ap sub a shift(4) have "\<forall>b\<in>set (snake g'). apple g' \<noteq> Some b" by auto
  ultimately show ?thesis by blast
qed

lemma do_call_invariant:
  assumes "distinct (snake g)" and "\<forall>c\<in>set (snake g). apple g \<noteq> Some c"
  shows "distinct (snake (do_call g c)) \<and> (\<forall>b\<in>set (snake (do_call g c)). apple (do_call g c) \<noteq> Some b)"
proof (cases c)
  case (SetDirection d)
  show ?thesis
  proof (cases "set_direction g d")
    case (Inl e)
    with SetDirection assms show ?thesis by simp
  next
    case (Inr g')
    from set_direction_snake_apple [OF Inr] SetDirection Inr assms show ?thesis by simp
  qed
next
  case (Move rnd)
  show ?thesis
  proof (cases "move g rnd")
    case (Inl e)
    with Move assms show ?thesis by simp
  next
    case (Inr p)
    obtain r g' where p: "p = (r, g')" by (cases p)
    with Inr have "move g rnd = Inr (r, g')" by simp
    from move_invariant [OF this assms] Move Inr p show ?thesis by simp
  qed
qed

lemma run_invariant:
  "distinct (snake g) \<Longrightarrow> \<forall>c\<in>set (snake g). apple g \<noteq> Some c
   \<Longrightarrow> distinct (snake (run g cs)) \<and> (\<forall>b\<in>set (snake (run g cs)). apple (run g cs) \<noteq> Some b)"
proof (induction cs arbitrary: g)
  case Nil
  then show ?case by (simp add: run_def)
next
  case (Cons c cs)
  from do_call_invariant [OF Cons.prems, of c]
  have "distinct (snake (do_call g c))" "\<forall>b\<in>set (snake (do_call g c)). apple (do_call g c) \<noteq> Some b"
    by blast+
  from Cons.IH [OF this] show ?case by (simp add: run_def)
qed

text \<open>
  Claim C1. In every state reached from a constructor call with width and height of at
  least one and a start length from one to the width, by any sequence of
  \<open>set_direction\<close> and \<open>move\<close> calls (with any outcomes of the random choice), the
  body has no duplicate coordinate and the apple is not a coordinate of the body. The
  bounds on the arguments are those of the claim; the invariant does not depend on
  them.
\<close>

theorem body_distinct_apple_free:
  assumes "1 \<le> w" and "1 \<le> h" and "1 \<le> start_length" and "start_length \<le> w"
    and "SnakeGame_init w h start_length overflow rnd = Inr g"
  shows "distinct (snake (run g cs)) \<and> (\<forall>c\<in>set (snake (run g cs)). apple (run g cs) \<noteq> Some c)"
proof -
  from init_invariant [OF assms(5)]
  have "distinct (snake g)" "\<forall>c\<in>set (snake g). apple g \<noteq> Some c" by blast+
  then show ?thesis by (rule run_invariant)
qed

theorem body_distinct_apple_free_witness:
  "(1::int) \<le> 2 \<and> (2::int) \<le> 2
   \<and> SnakeGame_init 2 2 2 True 0
       = Inr (game_2x2 2 True RIGHT [Coordinate 0 0, Coordinate 1 0] (Some (Coordinate 0 1)))
   \<and> run (game_2x2 2 True RIGHT [Coordinate 0 0, Coordinate 1 0] (Some (Coordinate 0 1)))
         [SetDirection DOWN, Move 0, SetDirection LEFT, Move 0]
       = game_2x2 2 True LEFT [Coordinate 1 0, Coordinate 1 1, Coordinate 0 1] (Some (Coordinate 0 0))
   \<and> distinct [Coordinate 1 0, Coordinate 1 1, Coordinate 0 1]
   \<and> Coordinate 0 0 \<notin> set [Coordinate 1 0, Coordinate 1 1, Coordinate 0 1]"
proof -
  have w: "(1::int) \<le> 2" and l: "(2::int) \<le> 2" by simp_all
  have i: "SnakeGame_init 2 2 2 True 0
       = Inr (game_2x2 2 True RIGHT [Coordinate 0 0, Coordinate 1 0] (Some (Coordinate 0 1)))"
    by code_simp
  have r: "run (game_2x2 2 True RIGHT [Coordinate 0 0, Coordinate 1 0] (Some (Coordinate 0 1)))
         [SetDirection DOWN, Move 0, SetDirection LEFT, Move 0]
       = game_2x2 2 True LEFT [Coordinate 1 0, Coordinate 1 1, Coordinate 0 1] (Some (Coordinate 0 0))"
    by code_simp
  from body_distinct_apple_free [OF w w w l i, of "[SetDirection DOWN, Move 0, SetDirection LEFT, Move 0]"]
  have "distinct [Coordinate 1 0, Coordinate 1 1, Coordinate 0 1]
      \<and> Coordinate 0 0 \<notin> set [Coordinate 1 0, Coordinate 1 1, Coordinate 0 1]"
    unfolding r by simp
  with w l i r show ?thesis by blast
qed

end
